theory Spec2Isabelle
  imports Complex_Main "HOL-Library.Sublist"
begin

section \<open>The product catalog of the storefront\<close>

text \<open>
  The catalog layer of the storefront is the module \<^verbatim>\<open>lib/amazon-api.ts\<close>: a module-level
  array \<^verbatim>\<open>MOCK_PRODUCTS\<close> and three asynchronous read operations over it,
  \<^verbatim>\<open>searchProducts\<close>, \<^verbatim>\<open>getProductByASIN\<close> and \<^verbatim>\<open>getFeaturedProducts\<close>. The types
  are those of \<^verbatim>\<open>types/product.ts\<close>.

  The embedding passes the module-level array explicitly: every operation takes the array
  and returns its result together with the array as the operation leaves it. The simulated
  network delay (\<^verbatim>\<open>await new Promise(resolve => setTimeout(resolve, ...))\<close>) only postpones the
  result and is not modelled; the value of an operation is the value its promise resolves to.
\<close>

subsection \<open>Numbers\<close>

text \<open>
  A TypeScript \<^verbatim>\<open>number\<close> is used here only through the comparisons \<^verbatim>\<open>>=\<close>, \<^verbatim>\<open><=\<close>
  and \<^verbatim>\<open>>\<close>. Under these a number is either \<^verbatim>\<open>NaN\<close>, which compares false with
  everything, or a point of the extended number line (both zeros compare equal). Finite
  values are represented by the rational they denote; the decimal literals of the catalog
  stand for their decimal value.
\<close>

datatype number = NaN | NegInfinity | Finite rat | PosInfinity

fun number_ge :: "number \<Rightarrow> number \<Rightarrow> bool" where
  "number_ge NaN y = False"
| "number_ge x NaN = False"
| "number_ge PosInfinity y = True"
| "number_ge x NegInfinity = True"
| "number_ge (Finite a) (Finite b) = (b \<le> a)"
| "number_ge NegInfinity y = False"
| "number_ge (Finite a) PosInfinity = False"

fun number_le :: "number \<Rightarrow> number \<Rightarrow> bool" where
  "number_le NaN y = False"
| "number_le x NaN = False"
| "number_le NegInfinity y = True"
| "number_le x PosInfinity = True"
| "number_le (Finite a) (Finite b) = (a \<le> b)"
| "number_le PosInfinity y = False"
| "number_le (Finite a) NegInfinity = False"

fun number_gt :: "number \<Rightarrow> number \<Rightarrow> bool" where
  "number_gt NaN y = False"
| "number_gt x NaN = False"
| "number_gt x PosInfinity = False"
| "number_gt NegInfinity y = False"
| "number_gt (Finite a) (Finite b) = (b < a)"
| "number_gt PosInfinity y = True"
| "number_gt (Finite a) NegInfinity = True"

subsection \<open>Strings\<close>

text \<open>
  Strings are sequences of characters compared element by element; the catalog's strings
  are written in UTF-8. \<^verbatim>\<open>String.prototype.includes\<close> tests for a contiguous occurrence of
  its argument.

  \<^verbatim>\<open>String.prototype.toLowerCase\<close> is a built-in of the JavaScript runtime: it applies the
  lower-case mapping of the Unicode character database, which is no part of the repository.
  The operations below therefore take the lower-casing function as a parameter, named
  \<open>toLowerCase\<close>, and the properties are proved for every such function.
\<close>

fun startsWith :: "string \<Rightarrow> string \<Rightarrow> bool" where
  "startsWith s [] = True"
| "startsWith [] (k # ks) = False"
| "startsWith (c # s) (k # ks) = (c = k \<and> startsWith s ks)"

fun str_includes :: "string \<Rightarrow> string \<Rightarrow> bool" where
  "str_includes [] k = (k = [])"
| "str_includes (c # s) k = (startsWith (c # s) k \<or> str_includes s k)"

subsection \<open>The types of \<^verbatim>\<open>types/product.ts\<close>\<close>

record Price =
  price_value :: number
  currency :: string
  displayAmount :: string

record PrimaryImages =
  small :: string
  medium :: string
  large :: string

record Images =
  primary :: PrimaryImages

record Product =
  asin :: string
  title :: string
  price :: "Price option"
  images :: "Images option"
  rating :: "number option"
  reviewCount :: "number option"
  isPrime :: "bool option"
  detailPageURL :: string
  availability :: "string option"
  brand :: "string option"
  features :: "string list option"

record SearchParams =
  keywords' :: "string option"
  category :: "string option"
  minPrice :: "number option"
  maxPrice :: "number option"
  page :: "number option"

subsection \<open>The stored catalog\<close>

text \<open>
  The array \<^verbatim>\<open>MOCK_PRODUCTS\<close> of the module, entry by entry and in its order. Characters
  outside ASCII (in the second title) and the double quote are written by their code.
\<close>

definition product_B08N5WRWNW :: Product where
  "product_B08N5WRWNW =
     \<lparr>asin = ''B08N5WRWNW'',
      title = ''Apple AirPods Pro (2nd Generation)'',
      price = Some \<lparr>price_value = Finite (24999 / 100), currency = ''USD'', displayAmount = ''$249.99''\<rparr>,
      images = Some \<lparr>primary =
        \<lparr>small = ''https://images.unsplash.com/photo-1606841837239-c5a1a4a07af7?w=300&h=300&fit=crop'',
         medium = ''https://images.unsplash.com/photo-1606841837239-c5a1a4a07af7?w=500&h=500&fit=crop'',
         large = ''https://images.unsplash.com/photo-1606841837239-c5a1a4a07af7?w=800&h=800&fit=crop''\<rparr>\<rparr>,
      rating = Some (Finite (47 / 10)),
      reviewCount = Some (Finite 15420),
      isPrime = Some True,
      detailPageURL = ''https://amazon.com/dp/B08N5WRWNW'',
      availability = Some ''In Stock'',
      brand = Some ''Apple'',
      features = Some
        [''Active Noise Cancellation'',
         ''Adaptive Transparency'',
         ''Personalized Spatial Audio'',
         ''Up to 6 hours listening time'']\<rparr>"

definition product_B0CX23V2ZK :: Product where
  "product_B0CX23V2ZK =
     \<lparr>asin = ''B0CX23V2ZK'',
      title = ''Kindle Paperwhite (16 GB) '' @
        [CHR 0xC3, CHR 0xA2, CHR 0xE2, CHR 0x82, CHR 0xAC, CHR 0xE2, CHR 0x80, CHR 0x9C] @
        '' Now with a larger display'',
      price = Some \<lparr>price_value = Finite (15999 / 100), currency = ''USD'', displayAmount = ''$159.99''\<rparr>,
      images = Some \<lparr>primary =
        \<lparr>small = ''https://images.unsplash.com/photo-1592422546632-48d39e7d8c73?w=300&h=300&fit=crop'',
         medium = ''https://images.unsplash.com/photo-1592422546632-48d39e7d8c73?w=500&h=500&fit=crop'',
         large = ''https://images.unsplash.com/photo-1592422546632-48d39e7d8c73?w=800&h=800&fit=crop''\<rparr>\<rparr>,
      rating = Some (Finite (46 / 10)),
      reviewCount = Some (Finite 8934),
      isPrime = Some True,
      detailPageURL = ''https://amazon.com/dp/B0CX23V2ZK'',
      availability = Some ''In Stock'',
      brand = Some ''Amazon'',
      features = Some
        [''6.8'' @ [CHR 0x22] @ '' display'',
         ''Waterproof (IPX8)'',
         ''Weeks of battery life'',
         ''16 GB storage'']\<rparr>"

definition product_B0D1XD1ZV3 :: Product where
  "product_B0D1XD1ZV3 =
     \<lparr>asin = ''B0D1XD1ZV3'',
      title = ''Sony WH-1000XM5 Wireless Noise Cancelling Headphones'',
      price = Some \<lparr>price_value = Finite 398, currency = ''USD'', displayAmount = ''$398.00''\<rparr>,
      images = Some \<lparr>primary =
        \<lparr>small = ''https://images.unsplash.com/photo-1546435770-a3e426bf472b?w=300&h=300&fit=crop'',
         medium = ''https://images.unsplash.com/photo-1546435770-a3e426bf472b?w=500&h=500&fit=crop'',
         large = ''https://images.unsplash.com/photo-1546435770-a3e426bf472b?w=800&h=800&fit=crop''\<rparr>\<rparr>,
      rating = Some (Finite (48 / 10)),
      reviewCount = Some (Finite 5623),
      isPrime = Some False,
      detailPageURL = ''https://amazon.com/dp/B0D1XD1ZV3'',
      availability = Some ''In Stock'',
      brand = Some ''Sony'',
      features = Some
        [''Industry-leading noise cancellation'',
         ''Up to 30-hour battery life'',
         ''Crystal clear hands-free calling'',
         ''Multipoint connection'']\<rparr>"

definition product_B09G9FPHY6 :: Product where
  "product_B09G9FPHY6 =
     \<lparr>asin = ''B09G9FPHY6'',
      title = ''Samsung Galaxy Tab S9 11'' @ [CHR 0x22] @ '' 128GB WiFi Tablet'',
      price = Some \<lparr>price_value = Finite (67999 / 100), currency = ''USD'', displayAmount = ''$679.99''\<rparr>,
      images = Some \<lparr>primary =
        \<lparr>small = ''https://images.unsplash.com/photo-1544244015-0df4b3ffc6b0?w=300&h=300&fit=crop'',
         medium = ''https://images.unsplash.com/photo-1544244015-0df4b3ffc6b0?w=500&h=500&fit=crop'',
         large = ''https://images.unsplash.com/photo-1544244015-0df4b3ffc6b0?w=800&h=800&fit=crop''\<rparr>\<rparr>,
      rating = Some (Finite (45 / 10)),
      reviewCount = Some (Finite 3201),
      isPrime = Some True,
      detailPageURL = ''https://amazon.com/dp/B09G9FPHY6'',
      availability = Some ''In Stock'',
      brand = Some ''Samsung'',
      features = Some
        [''11'' @ [CHR 0x22] @ '' Dynamic AMOLED 2X Display'',
         ''IP68 Water & Dust Resistant'',
         ''S Pen included'',
         ''Qualcomm Snapdragon processor'']\<rparr>"

definition product_B0BSHF7WHW :: Product where
  "product_B0BSHF7WHW =
     \<lparr>asin = ''B0BSHF7WHW'',
      title = ''Anker PowerCore 20000mAh Portable Charger'',
      price = Some \<lparr>price_value = Finite (4999 / 100), currency = ''USD'', displayAmount = ''$49.99''\<rparr>,
      images = Some \<lparr>primary =
        \<lparr>small = ''https://images.unsplash.com/photo-1609091839311-d5365f9ff1c5?w=300&h=300&fit=crop'',
         medium = ''https://images.unsplash.com/photo-1609091839311-d5365f9ff1c5?w=500&h=500&fit=crop'',
         large = ''https://images.unsplash.com/photo-1609091839311-d5365f9ff1c5?w=800&h=800&fit=crop''\<rparr>\<rparr>,
      rating = Some (Finite (47 / 10)),
      reviewCount = Some (Finite 12450),
      isPrime = Some True,
      detailPageURL = ''https://amazon.com/dp/B0BSHF7WHW'',
      availability = Some ''In Stock'',
      brand = Some ''Anker'',
      features = Some
        [''20000mAh capacity'',
         ''Fast charging technology'',
         ''Dual USB ports'',
         ''Premium build quality'']\<rparr>"

definition product_B08XYKHSJQ :: Product where
  "product_B08XYKHSJQ =
     \<lparr>asin = ''B08XYKHSJQ'',
      title = ''Logitech MX Master 3S Wireless Mouse'',
      price = Some \<lparr>price_value = Finite (9999 / 100), currency = ''USD'', displayAmount = ''$99.99''\<rparr>,
      images = Some \<lparr>primary =
        \<lparr>small = ''https://images.unsplash.com/photo-1527864550417-7fd91fc51a46?w=300&h=300&fit=crop'',
         medium = ''https://images.unsplash.com/photo-1527864550417-7fd91fc51a46?w=500&h=500&fit=crop'',
         large = ''https://images.unsplash.com/photo-1527864550417-7fd91fc51a46?w=800&h=800&fit=crop''\<rparr>\<rparr>,
      rating = Some (Finite (48 / 10)),
      reviewCount = Some (Finite 9876),
      isPrime = Some True,
      detailPageURL = ''https://amazon.com/dp/B08XYKHSJQ'',
      availability = Some ''In Stock'',
      brand = Some ''Logitech'',
      features = Some
        [''Quiet clicks'',
         ''8K DPI sensor'',
         ''Ergonomic design'',
         ''USB-C rechargeable'']\<rparr>"

definition MOCK_PRODUCTS :: "Product list" where
  "MOCK_PRODUCTS =
     [product_B08N5WRWNW,
      product_B0CX23V2ZK,
      product_B0D1XD1ZV3,
      product_B09G9FPHY6,
      product_B0BSHF7WHW,
      product_B08XYKHSJQ]"

subsection \<open>The operations of \<^verbatim>\<open>lib/amazon-api.ts\<close>\<close>

text \<open>
  The three filter callbacks of \<^verbatim>\<open>searchProducts\<close>. A callback's result is read by
  \<^verbatim>\<open>Array.prototype.filter\<close> for its truthiness: \<^verbatim>\<open>product.brand?.toLowerCase().includes(k)\<close>
  is \<^verbatim>\<open>undefined\<close>, hence falsy, for a product without a brand, and \<^verbatim>\<open>product.price && ...\<close>
  is falsy for a product without a price.
\<close>

definition keywords_match :: "(string \<Rightarrow> string) \<Rightarrow> string \<Rightarrow> Product \<Rightarrow> bool" where
  "keywords_match toLowerCase keywords product \<longleftrightarrow>
     str_includes (toLowerCase (title product)) keywords \<or>
     (case brand product of
        None \<Rightarrow> False
      | Some b \<Rightarrow> str_includes (toLowerCase b) keywords)"

definition minPrice_match :: "number \<Rightarrow> Product \<Rightarrow> bool" where
  "minPrice_match mn product \<longleftrightarrow>
     (case price product of
        None \<Rightarrow> False
      | Some pr \<Rightarrow> number_ge (price_value pr) mn)"

definition maxPrice_match :: "number \<Rightarrow> Product \<Rightarrow> bool" where
  "maxPrice_match mx product \<longleftrightarrow>
     (case price product of
        None \<Rightarrow> False
      | Some pr \<Rightarrow> number_le (price_value pr) mx)"

text \<open>
  \<^verbatim>\<open>if (params.keywords)\<close> holds for a supplied, non-empty string; the price bounds are
  tested with \<^verbatim>\<open>!== undefined\<close>. The fields \<^verbatim>\<open>category\<close> and \<^verbatim>\<open>page\<close> are never read.
\<close>

definition searchProducts ::
  "(string \<Rightarrow> string) \<Rightarrow> SearchParams \<Rightarrow> Product list \<Rightarrow> Product list \<times> Product list" where
  "searchProducts toLowerCase params catalog =
     (let results = catalog;
          results =
            (case keywords' params of
               None \<Rightarrow> results
             | Some k \<Rightarrow>
                 if k = [] then results
                 else (let keywords = toLowerCase k
                       in filter (keywords_match toLowerCase keywords) results));
          results =
            (case minPrice params of
               None \<Rightarrow> results
             | Some mn \<Rightarrow> filter (minPrice_match mn) results);
          results =
            (case maxPrice params of
               None \<Rightarrow> results
             | Some mx \<Rightarrow> filter (maxPrice_match mx) results)
      in (results, catalog))"

text \<open>
  \<^verbatim>\<open>MOCK_PRODUCTS.find(p => p.asin === asin)\<close> is the first product with that identifier,
  or \<^verbatim>\<open>undefined\<close>; \<^verbatim>\<open>product || null\<close> turns the latter into \<^verbatim>\<open>null\<close>, here \<open>None\<close>.
\<close>

definition getProductByASIN :: "string \<Rightarrow> Product list \<Rightarrow> Product option \<times> Product list" where
  "getProductByASIN a catalog = (find (\<lambda>p. asin p = a) catalog, catalog)"

text \<open>\<^verbatim>\<open>MOCK_PRODUCTS.slice(0, 4)\<close>: the function takes no argument.\<close>

definition getFeaturedProducts :: "Product list \<Rightarrow> Product list \<times> Product list" where
  "getFeaturedProducts catalog = (take 4 catalog, catalog)"

subsection \<open>Notions used to state the properties\<close>

text \<open>
  The criteria object \<^verbatim>\<open>{}\<close>, with no field supplied.
\<close>

definition no_criteria :: SearchParams where
  "no_criteria =
     \<lparr>keywords' = None, category = None, minPrice = None, maxPrice = None, page = None\<rparr>"

text \<open>
  To evaluate the operations on concrete strings, the lower-casing parameter is
  instantiated by \<open>toLowerCase_ascii\<close>, which maps the letters \<^verbatim>\<open>A\<close> to \<^verbatim>\<open>Z\<close> to \<^verbatim>\<open>a\<close> to
  \<^verbatim>\<open>z\<close> and leaves every other character alone. It agrees with the built-in on every
  string in which lower-casing changes no character outside ASCII. The strings of the stored
  catalog are of this kind (their only characters outside ASCII are U+00E2, U+20AC and
  U+201C, in the second title), and so are the keyword strings evaluated below, among them
  the sharp s (U+00DF), which is a lower-case letter.
\<close>

definition toLowerCase_ascii_char :: "char \<Rightarrow> char" where
  "toLowerCase_ascii_char c =
     (let n = (of_char c :: nat) in if 65 \<le> n \<and> n \<le> 90 then char_of (n + 32) else c)"

definition toLowerCase_ascii :: "string \<Rightarrow> string" where
  "toLowerCase_ascii s = map toLowerCase_ascii_char s"

text \<open>
  The built-in lower-cases a string of ASCII characters letter by letter. The predicate
  \<open>lowers_ascii\<close> says this of a lower-casing function; nothing is said about strings
  with other characters.
\<close>

definition is_ascii :: "char \<Rightarrow> bool" where
  "is_ascii c \<longleftrightarrow> (of_char c :: nat) < 128"

definition lowers_ascii :: "(string \<Rightarrow> string) \<Rightarrow> bool" where
  "lowers_ascii toLowerCase \<longleftrightarrow>
     (\<forall>s. list_all is_ascii s \<longrightarrow> toLowerCase s = toLowerCase_ascii s)"

text \<open>
  Two strings are case variants of each other when they have the same length and agree
  position by position up to the case of an ASCII letter: the characters are equal, or
  one is an upper-case letter and the other the lower-case letter 32 code points above it.
\<close>

definition is_upper :: "char \<Rightarrow> bool" where
  "is_upper c \<longleftrightarrow> 65 \<le> (of_char c :: nat) \<and> (of_char c :: nat) \<le> 90"

definition same_letter :: "char \<Rightarrow> char \<Rightarrow> bool" where
  "same_letter a b \<longleftrightarrow>
     a = b \<or>
     (is_upper a \<and> (of_char b :: nat) = of_char a + 32) \<or>
     (is_upper b \<and> (of_char a :: nat) = of_char b + 32)"

definition case_variant :: "string \<Rightarrow> string \<Rightarrow> bool" where
  "case_variant k k' \<longleftrightarrow> list_all2 same_letter k k'"

section \<open>Properties\<close>

subsection \<open>Strings and numbers\<close>

text \<open>The recursive test for an occurrence agrees with the library's contiguous sublists.\<close>

lemma startsWith_prefix: "startsWith s k \<longleftrightarrow> prefix k s"
  by (induction s k rule: startsWith.induct) auto

lemma str_includes_sublist: "str_includes s k \<longleftrightarrow> sublist k s"
  by (induction s) (auto simp: startsWith_prefix sublist_Cons_right)

text \<open>No number lies between two crossed bounds.\<close>

lemma number_bounds_cross:
  "number_gt mn mx \<Longrightarrow> number_ge v mn \<Longrightarrow> number_le v mx \<Longrightarrow> False"
  by (cases mn; cases mx; cases v) auto

text \<open>Lower-casing identifies the two cases of a letter.\<close>

lemma toLowerCase_ascii_char_same_letter:
  assumes "same_letter a b"
  shows "toLowerCase_ascii_char a = toLowerCase_ascii_char b"
proof -
  have up: "toLowerCase_ascii_char b = b"
    if "is_upper a" "(of_char b :: nat) = of_char a + 32" for a b
    using that by (auto simp: toLowerCase_ascii_char_def is_upper_def Let_def)
  have lo: "toLowerCase_ascii_char a = b"
    if "is_upper a" "(of_char b :: nat) = of_char a + 32" for a b
  proof -
    have "char_of (of_char a + 32 :: nat) = char_of (of_char b :: nat)"
      using that by simp
    then have "char_of (of_char a + 32 :: nat) = b"
      by simp
    then show ?thesis
      using that by (simp add: toLowerCase_ascii_char_def is_upper_def Let_def)
  qed
  from assms show ?thesis
    unfolding same_letter_def using up lo by metis
qed

lemma toLowerCase_ascii_case_variant:
  "case_variant k k' \<Longrightarrow> toLowerCase_ascii k = toLowerCase_ascii k'"
  unfolding case_variant_def toLowerCase_ascii_def
  by (induction k k' rule: list_all2_induct) (auto dest: toLowerCase_ascii_char_same_letter)

lemma case_variant_Nil: "case_variant k k' \<Longrightarrow> k = [] \<longleftrightarrow> k' = []"
  by (auto simp: case_variant_def)

text \<open>A case variant of a string of ASCII characters is a string of ASCII characters.\<close>

lemma same_letter_ascii: "same_letter a b \<Longrightarrow> is_ascii a \<Longrightarrow> is_ascii b"
  by (auto simp: same_letter_def is_ascii_def is_upper_def)

lemma case_variant_ascii:
  "case_variant k k' \<Longrightarrow> list_all is_ascii k \<Longrightarrow> list_all is_ascii k'"
  unfolding case_variant_def
  by (induction k k' rule: list_all2_induct) (auto dest: same_letter_ascii)

lemma lowers_ascii_case_variant:
  assumes "lowers_ascii toLowerCase" and "list_all is_ascii k" and "case_variant k k'"
  shows "toLowerCase k = toLowerCase k'"
proof -
  from assms(3,2) have "list_all is_ascii k'"
    by (rule case_variant_ascii)
  with assms(1,2) have "toLowerCase k = toLowerCase_ascii k"
    and "toLowerCase k' = toLowerCase_ascii k'"
    by (simp_all add: lowers_ascii_def)
  with toLowerCase_ascii_case_variant [OF assms(3)] show ?thesis
    by simp
qed

lemma lowers_ascii_toLowerCase_ascii: "lowers_ascii toLowerCase_ascii"
  by (simp add: lowers_ascii_def)

text \<open>The search reads the keyword string only through its lower-case form.\<close>

lemma searchProducts_keywords_lower:
  assumes "toLowerCase k = toLowerCase k'" and "k = [] \<longleftrightarrow> k' = []"
  shows "searchProducts toLowerCase (params\<lparr>keywords' := Some k\<rparr>) catalog =
         searchProducts toLowerCase (params\<lparr>keywords' := Some k'\<rparr>) catalog"
  using assms by (simp add: searchProducts_def)

subsection \<open>The search as one filter\<close>

text \<open>
  The three successive filters keep exactly the products that pass every supplied test,
  in the order of the catalog.
\<close>

lemma searchProducts_filter:
  "fst (searchProducts toLowerCase params catalog) =
     filter (\<lambda>p.
        (case keywords' params of
           None \<Rightarrow> True
         | Some k \<Rightarrow> k = [] \<or> keywords_match toLowerCase (toLowerCase k) p) \<and>
        (case minPrice params of None \<Rightarrow> True | Some mn \<Rightarrow> minPrice_match mn p) \<and>
        (case maxPrice params of None \<Rightarrow> True | Some mx \<Rightarrow> maxPrice_match mx p)) catalog"
  by (auto simp: searchProducts_def Let_def split: option.splits intro: filter_cong)

lemma keywords_match_iff:
  "keywords_match toLowerCase k p \<longleftrightarrow>
     sublist k (toLowerCase (title p)) \<or>
     (\<exists>b. brand p = Some b \<and> sublist k (toLowerCase b))"
  by (auto simp: keywords_match_def str_includes_sublist split: option.splits)

lemma minPrice_match_iff:
  "minPrice_match mn p \<longleftrightarrow> (\<exists>pr. price p = Some pr \<and> number_ge (price_value pr) mn)"
  by (auto simp: minPrice_match_def split: option.splits)

lemma maxPrice_match_iff:
  "maxPrice_match mx p \<longleftrightarrow> (\<exists>pr. price p = Some pr \<and> number_le (price_value pr) mx)"
  by (auto simp: maxPrice_match_def split: option.splits)

subsection \<open>Lookup by identifier\<close>

lemma find_asin_distinct:
  "distinct (map asin catalog) \<Longrightarrow> p \<in> set catalog \<Longrightarrow>
     find (\<lambda>q. asin q = asin p) catalog = Some p"
  by (induction catalog) (auto simp: image_iff)

lemma find_asin_absent:
  "x \<notin> asin ` set catalog \<Longrightarrow> find (\<lambda>q. asin q = x) catalog = None"
  by (auto simp: find_None_iff)

lemma find_asin_found:
  "find (\<lambda>q. asin q = x) catalog = Some q \<Longrightarrow> q \<in> set catalog \<and> asin q = x"
  by (auto simp: find_Some_iff)

subsection \<open>The stored catalog\<close>

lemma MOCK_PRODUCTS_distinct_asin: "distinct (map asin MOCK_PRODUCTS)"
  by code_simp

lemma MOCK_PRODUCTS_distinct: "distinct MOCK_PRODUCTS"
  by code_simp

lemma product_B08N5WRWNW_stored: "product_B08N5WRWNW \<in> set MOCK_PRODUCTS"
  by (simp add: MOCK_PRODUCTS_def)

lemma product_B08N5WRWNW_price:
  "price product_B08N5WRWNW =
     Some \<lparr>price_value = Finite (24999 / 100), currency = ''USD'', displayAmount = ''$249.99''\<rparr>"
  by (simp add: product_B08N5WRWNW_def)

text \<open>
  The scenario of the storefront: the keyword \<^verbatim>\<open>airpods\<close> finds exactly the AirPods, a lower
  price bound of 300 excludes them, and the lookup by identifier finds them.
\<close>

lemma scenario_search_airpods:
  "fst (searchProducts toLowerCase_ascii (no_criteria\<lparr>keywords' := Some ''airpods''\<rparr>)
     MOCK_PRODUCTS) = [product_B08N5WRWNW]"
  by code_simp

lemma scenario_search_minPrice_300:
  "product_B08N5WRWNW \<notin>
     set (fst (searchProducts toLowerCase_ascii (no_criteria\<lparr>minPrice := Some (Finite 300)\<rparr>)
       MOCK_PRODUCTS))"
  by code_simp

lemma scenario_lookup:
  "fst (getProductByASIN ''B08N5WRWNW'' MOCK_PRODUCTS) = Some product_B08N5WRWNW \<and>
   fst (getProductByASIN ''nonexistent'' MOCK_PRODUCTS) = None"
  by code_simp

lemma scenario_empty_catalog:
  "fst (searchProducts toLowerCase no_criteria []) = [] \<and>
   fst (getFeaturedProducts []) = [] \<and>
   fst (getProductByASIN a []) = None"
  by (simp add: searchProducts_def no_criteria_def getFeaturedProducts_def
      getProductByASIN_def)

section \<open>The claims\<close>

subsection \<open>Search\<close>

text \<open>
  Claim C1, as amended. For every criteria with a supplied non-empty keywords string \<open>k\<close>, a
  product is included in the result of the search exactly when it is stored in the catalog,
  the lower-cased \<open>k\<close> is a substring of its lower-cased title or of its lower-cased brand
  (when it has a brand), and it satisfies every price bound the criteria supply; a product
  without a brand can match through its title. The filters are combined by conjunction, so
  the keyword test alone decides inclusion only when no price bound is supplied.
\<close>

theorem searchProducts_keywords_membership:
  assumes "keywords' params = Some k" and "k \<noteq> []"
  shows "p \<in> set (fst (searchProducts toLowerCase params catalog)) \<longleftrightarrow>
     p \<in> set catalog \<and>
     (sublist (toLowerCase k) (toLowerCase (title p)) \<or>
      (\<exists>b. brand p = Some b \<and> sublist (toLowerCase k) (toLowerCase b))) \<and>
     (\<forall>mn. minPrice params = Some mn \<longrightarrow>
        (\<exists>pr. price p = Some pr \<and> number_ge (price_value pr) mn)) \<and>
     (\<forall>mx. maxPrice params = Some mx \<longrightarrow>
        (\<exists>pr. price p = Some pr \<and> number_le (price_value pr) mx))"
  using assms
  by (auto simp: searchProducts_filter keywords_match_iff minPrice_match_iff
      maxPrice_match_iff split: option.splits)

text \<open>
  With the keyword \<^verbatim>\<open>airpods\<close> and no price bound, the AirPods are found through their title.
\<close>

theorem searchProducts_keywords_membership_witness:
  "keywords' (no_criteria\<lparr>keywords' := Some ''airpods''\<rparr>) = Some ''airpods'' \<and>
   ''airpods'' \<noteq> [] \<and>
   sublist (toLowerCase_ascii ''airpods'') (toLowerCase_ascii (title product_B08N5WRWNW)) \<and>
   product_B08N5WRWNW \<in>
     set (fst (searchProducts toLowerCase_ascii (no_criteria\<lparr>keywords' := Some ''airpods''\<rparr>)
       MOCK_PRODUCTS))"
proof -
  let ?c = "no_criteria\<lparr>keywords' := Some ''airpods''\<rparr>"
  have k: "keywords' ?c = Some ''airpods''" and n: "''airpods'' \<noteq> []"
    by simp_all
  have b: "minPrice ?c = None" "maxPrice ?c = None"
    by (simp_all add: no_criteria_def)
  have t: "sublist (toLowerCase_ascii ''airpods'')
      (toLowerCase_ascii (title product_B08N5WRWNW))"
    by code_simp
  have "product_B08N5WRWNW \<in> set (fst (searchProducts toLowerCase_ascii ?c MOCK_PRODUCTS))"
    using searchProducts_keywords_membership
      [where toLowerCase = toLowerCase_ascii and p = product_B08N5WRWNW
        and catalog = MOCK_PRODUCTS, OF k n]
      product_B08N5WRWNW_stored t b
    by simp
  with k n t show ?thesis
    by simp
qed

text \<open>
  The claim as it was stated lets the keyword test alone decide. With the keyword
  \<^verbatim>\<open>airpods\<close> and a lower price bound of 300, the AirPods (249.99) match the keyword and are
  not in the result.
\<close>

theorem searchProducts_keywords_counterexample:
  "product_B08N5WRWNW \<in> set MOCK_PRODUCTS \<and>
   sublist (toLowerCase_ascii ''airpods'') (toLowerCase_ascii (title product_B08N5WRWNW)) \<and>
   product_B08N5WRWNW \<notin>
     set (fst (searchProducts toLowerCase_ascii
       (no_criteria\<lparr>keywords' := Some ''airpods'', minPrice := Some (Finite 300)\<rparr>)
       MOCK_PRODUCTS))"
  by code_simp

text \<open>
  Claim C2. When \<^verbatim>\<open>minPrice\<close> is supplied, a product is in the result of the search only if
  it has a price whose value is at least \<^verbatim>\<open>minPrice\<close>; when \<^verbatim>\<open>maxPrice\<close> is supplied, only
  if it has a price whose value is at most \<^verbatim>\<open>maxPrice\<close>. Both comparisons admit equality.
  A product without a price is never in the result when either bound is supplied.
\<close>

theorem searchProducts_price_bounds:
  assumes "p \<in> set (fst (searchProducts toLowerCase params catalog))"
  shows "(\<forall>mn. minPrice params = Some mn \<longrightarrow>
            (\<exists>pr. price p = Some pr \<and> number_ge (price_value pr) mn)) \<and>
         (\<forall>mx. maxPrice params = Some mx \<longrightarrow>
            (\<exists>pr. price p = Some pr \<and> number_le (price_value pr) mx)) \<and>
         (minPrice params \<noteq> None \<or> maxPrice params \<noteq> None \<longrightarrow> price p \<noteq> None)"
  using assms
  by (auto simp: searchProducts_filter minPrice_match_iff maxPrice_match_iff
      split: option.splits)

text \<open>
  With both bounds at 249.99 the AirPods, priced 249.99, are in the result: the bounds are
  inclusive.
\<close>

theorem searchProducts_price_bounds_witness:
  "product_B08N5WRWNW \<in>
     set (fst (searchProducts toLowerCase_ascii
       (no_criteria\<lparr>minPrice := Some (Finite (24999 / 100)),
          maxPrice := Some (Finite (24999 / 100))\<rparr>) MOCK_PRODUCTS)) \<and>
   price product_B08N5WRWNW \<noteq> None \<and>
   number_ge (price_value (the (price product_B08N5WRWNW))) (Finite (24999 / 100)) \<and>
   number_le (price_value (the (price product_B08N5WRWNW))) (Finite (24999 / 100))"
proof -
  let ?c = "no_criteria\<lparr>minPrice := Some (Finite (24999 / 100)),
    maxPrice := Some (Finite (24999 / 100))\<rparr>"
  have m: "product_B08N5WRWNW \<in>
      set (fst (searchProducts toLowerCase_ascii ?c MOCK_PRODUCTS))"
    by code_simp
  have "minPrice ?c = Some (Finite (24999 / 100))" "maxPrice ?c = Some (Finite (24999 / 100))"
    by simp_all
  with searchProducts_price_bounds [OF m]
  have "\<exists>pr. price product_B08N5WRWNW = Some pr \<and>
          number_ge (price_value pr) (Finite (24999 / 100))"
    and "\<exists>pr. price product_B08N5WRWNW = Some pr \<and>
          number_le (price_value pr) (Finite (24999 / 100))"
    by blast+
  with m show ?thesis
    by auto
qed

text \<open>
  Claim C3. The search with empty criteria, that is with no keywords (or the empty keyword
  string) and no price bound, returns the catalog itself: every stored product, in storage
  order, each as often as it is stored.
\<close>

theorem searchProducts_no_filters:
  assumes "keywords' params = None \<or> keywords' params = Some []"
    and "minPrice params = None" and "maxPrice params = None"
  shows "fst (searchProducts toLowerCase params catalog) = catalog"
  using assms by (auto simp: searchProducts_def)

theorem searchProducts_no_filters_witness:
  "(keywords' no_criteria = None \<or> keywords' no_criteria = Some []) \<and>
   minPrice no_criteria = None \<and> maxPrice no_criteria = None \<and>
   fst (searchProducts toLowerCase_ascii no_criteria MOCK_PRODUCTS) = MOCK_PRODUCTS"
  using searchProducts_no_filters
    [where toLowerCase = toLowerCase_ascii and params = no_criteria
      and catalog = MOCK_PRODUCTS]
  by (simp add: no_criteria_def)

text \<open>
  Claim C6, as amended. The keyword search is case-insensitive as far as lower-casing is:
  two keyword strings with the same lower-case form (both empty or both non-empty) give
  the same result sequence, whatever the other criteria are. In particular, for every
  keyword string of ASCII characters, the search with it and the search with any of its
  case variants (for example \<^verbatim>\<open>apple\<close> and \<^verbatim>\<open>APPLE\<close>) give the same result sequence.
  Nothing is promised for case variants whose lower-case forms differ.
\<close>

theorem searchProducts_case_insensitive:
  "(toLowerCase k = toLowerCase k' \<and> (k = [] \<longleftrightarrow> k' = []) \<longrightarrow>
      fst (searchProducts toLowerCase (params\<lparr>keywords' := Some k\<rparr>) catalog) =
      fst (searchProducts toLowerCase (params\<lparr>keywords' := Some k'\<rparr>) catalog)) \<and>
   (lowers_ascii toLowerCase \<and> list_all is_ascii k \<and> case_variant k k' \<longrightarrow>
      fst (searchProducts toLowerCase (params\<lparr>keywords' := Some k\<rparr>) catalog) =
      fst (searchProducts toLowerCase (params\<lparr>keywords' := Some k'\<rparr>) catalog))"
proof (intro conjI impI)
  assume h: "toLowerCase k = toLowerCase k' \<and> (k = [] \<longleftrightarrow> k' = [])"
  then have l: "toLowerCase k = toLowerCase k'" and e: "k = [] \<longleftrightarrow> k' = []"
    by blast+
  from searchProducts_keywords_lower [OF l e, where params = params and catalog = catalog]
  show "fst (searchProducts toLowerCase (params\<lparr>keywords' := Some k\<rparr>) catalog) =
      fst (searchProducts toLowerCase (params\<lparr>keywords' := Some k'\<rparr>) catalog)"
    by (rule arg_cong)
next
  assume h: "lowers_ascii toLowerCase \<and> list_all is_ascii k \<and> case_variant k k'"
  then have f: "lowers_ascii toLowerCase" and a: "list_all is_ascii k"
    and v: "case_variant k k'"
    by blast+
  have l: "toLowerCase k = toLowerCase k'"
    using f a v by (rule lowers_ascii_case_variant)
  have e: "k = [] \<longleftrightarrow> k' = []"
    using v by (rule case_variant_Nil)
  from searchProducts_keywords_lower [OF l e, where params = params and catalog = catalog]
  show "fst (searchProducts toLowerCase (params\<lparr>keywords' := Some k\<rparr>) catalog) =
      fst (searchProducts toLowerCase (params\<lparr>keywords' := Some k'\<rparr>) catalog)"
    by (rule arg_cong)
qed

text \<open>
  The keywords \<^verbatim>\<open>apple\<close> and \<^verbatim>\<open>APPLE\<close> are case variants with the same lower-case form, and
  both find exactly the AirPods in the stored catalog.
\<close>

theorem searchProducts_case_insensitive_witness:
  "toLowerCase_ascii ''apple'' = toLowerCase_ascii ''APPLE'' \<and>
   ''apple'' \<noteq> [] \<and> ''APPLE'' \<noteq> [] \<and>
   list_all is_ascii ''apple'' \<and>
   case_variant ''apple'' ''APPLE'' \<and>
   fst (searchProducts toLowerCase_ascii (no_criteria\<lparr>keywords' := Some ''apple''\<rparr>)
     MOCK_PRODUCTS) = [product_B08N5WRWNW] \<and>
   fst (searchProducts toLowerCase_ascii (no_criteria\<lparr>keywords' := Some ''APPLE''\<rparr>)
     MOCK_PRODUCTS) = [product_B08N5WRWNW]"
proof -
  note insensitive = searchProducts_case_insensitive
    [where toLowerCase = toLowerCase_ascii and k = "''apple''" and k' = "''APPLE''"
      and params = no_criteria and catalog = MOCK_PRODUCTS]
  have l: "toLowerCase_ascii ''apple'' = toLowerCase_ascii ''APPLE''"
    by code_simp
  have n: "''apple'' \<noteq> []" "''APPLE'' \<noteq> []"
    by simp_all
  have a: "list_all is_ascii ''apple''"
    by code_simp
  have v: "case_variant ''apple'' ''APPLE''"
    by code_simp
  have r: "fst (searchProducts toLowerCase_ascii (no_criteria\<lparr>keywords' := Some ''apple''\<rparr>)
      MOCK_PRODUCTS) = [product_B08N5WRWNW]"
    by code_simp
  from insensitive [THEN conjunct1] l
  have e1: "fst (searchProducts toLowerCase_ascii (no_criteria\<lparr>keywords' := Some ''apple''\<rparr>)
      MOCK_PRODUCTS) =
    fst (searchProducts toLowerCase_ascii (no_criteria\<lparr>keywords' := Some ''APPLE''\<rparr>)
      MOCK_PRODUCTS)"
    by simp
  from insensitive [THEN conjunct2] lowers_ascii_toLowerCase_ascii a v
  have e2: "fst (searchProducts toLowerCase_ascii (no_criteria\<lparr>keywords' := Some ''apple''\<rparr>)
      MOCK_PRODUCTS) =
    fst (searchProducts toLowerCase_ascii (no_criteria\<lparr>keywords' := Some ''APPLE''\<rparr>)
      MOCK_PRODUCTS)"
    by simp
  from e1 e2 r
  have r': "fst (searchProducts toLowerCase_ascii (no_criteria\<lparr>keywords' := Some ''APPLE''\<rparr>)
      MOCK_PRODUCTS) = [product_B08N5WRWNW]"
    by simp
  show ?thesis
    by (intro conjI l n a v r r')
qed

text \<open>
  The claim as it was stated covers every keyword string and every case variant. The sharp
  s (U+00DF, in UTF-8 the bytes C3 9F) has the upper-case form \<^verbatim>\<open>SS\<close>. Lower-casing leaves
  the sharp s as it is and turns \<^verbatim>\<open>SS\<close> into \<^verbatim>\<open>ss\<close>; on all strings involved here it is
  computed by \<open>toLowerCase_ascii\<close>. In the stored catalog the keyword sharp s finds nothing,
  while the keyword \<^verbatim>\<open>SS\<close> finds the two products with \<^verbatim>\<open>Wireless\<close> in their title.
\<close>

theorem searchProducts_case_insensitive_counterexample:
  "fst (searchProducts toLowerCase_ascii
      (no_criteria\<lparr>keywords' := Some [CHR 0xC3, CHR 0x9F]\<rparr>) MOCK_PRODUCTS) = [] \<and>
   fst (searchProducts toLowerCase_ascii
      (no_criteria\<lparr>keywords' := Some ''SS''\<rparr>) MOCK_PRODUCTS) =
     [product_B0D1XD1ZV3, product_B08XYKHSJQ] \<and>
   fst (searchProducts toLowerCase_ascii
      (no_criteria\<lparr>keywords' := Some [CHR 0xC3, CHR 0x9F]\<rparr>) MOCK_PRODUCTS) \<noteq>
   fst (searchProducts toLowerCase_ascii
      (no_criteria\<lparr>keywords' := Some ''SS''\<rparr>) MOCK_PRODUCTS)"
  by code_simp

text \<open>
  Claim C7. When both bounds are supplied and \<^verbatim>\<open>minPrice > maxPrice\<close>, the search is not
  rejected: it returns the empty sequence.
\<close>

theorem searchProducts_crossed_bounds:
  assumes "minPrice params = Some mn" and "maxPrice params = Some mx"
    and "number_gt mn mx"
  shows "fst (searchProducts toLowerCase params catalog) = []"
  using assms
  by (auto simp: searchProducts_filter filter_empty_conv minPrice_match_iff
      maxPrice_match_iff dest: number_bounds_cross)

theorem searchProducts_crossed_bounds_witness:
  "minPrice (no_criteria\<lparr>minPrice := Some (Finite 300), maxPrice := Some (Finite 100)\<rparr>) =
     Some (Finite 300) \<and>
   maxPrice (no_criteria\<lparr>minPrice := Some (Finite 300), maxPrice := Some (Finite 100)\<rparr>) =
     Some (Finite 100) \<and>
   number_gt (Finite 300) (Finite 100) \<and>
   fst (searchProducts toLowerCase_ascii
     (no_criteria\<lparr>minPrice := Some (Finite 300), maxPrice := Some (Finite 100)\<rparr>)
     MOCK_PRODUCTS) = []"
  using searchProducts_crossed_bounds
    [where toLowerCase = toLowerCase_ascii
      and params = "no_criteria\<lparr>minPrice := Some (Finite 300), maxPrice := Some (Finite 100)\<rparr>"
      and mn = "Finite 300" and mx = "Finite 100" and catalog = MOCK_PRODUCTS]
  by simp

text \<open>
  Claim C9. The fields \<^verbatim>\<open>category\<close> and \<^verbatim>\<open>page\<close> do not influence the search: two criteria
  that agree on keywords, \<^verbatim>\<open>minPrice\<close> and \<^verbatim>\<open>maxPrice\<close> give the same result.
\<close>

theorem searchProducts_ignores_category_page:
  assumes "keywords' p1 = keywords' p2" and "minPrice p1 = minPrice p2"
    and "maxPrice p1 = maxPrice p2"
  shows "searchProducts toLowerCase p1 catalog = searchProducts toLowerCase p2 catalog"
  using assms by (simp add: searchProducts_def)

theorem searchProducts_ignores_category_page_witness:
  "keywords' (no_criteria\<lparr>keywords' := Some ''sony''\<rparr>) =
     keywords' (no_criteria\<lparr>keywords' := Some ''sony'', category := Some ''Electronics'',
       page := Some (Finite 2)\<rparr>) \<and>
   minPrice (no_criteria\<lparr>keywords' := Some ''sony''\<rparr>) =
     minPrice (no_criteria\<lparr>keywords' := Some ''sony'', category := Some ''Electronics'',
       page := Some (Finite 2)\<rparr>) \<and>
   maxPrice (no_criteria\<lparr>keywords' := Some ''sony''\<rparr>) =
     maxPrice (no_criteria\<lparr>keywords' := Some ''sony'', category := Some ''Electronics'',
       page := Some (Finite 2)\<rparr>) \<and>
   searchProducts toLowerCase_ascii (no_criteria\<lparr>keywords' := Some ''sony''\<rparr>)
     MOCK_PRODUCTS =
   searchProducts toLowerCase_ascii
     (no_criteria\<lparr>keywords' := Some ''sony'', category := Some ''Electronics'',
       page := Some (Finite 2)\<rparr>) MOCK_PRODUCTS"
  using searchProducts_ignores_category_page
    [where toLowerCase = toLowerCase_ascii
      and ?p1.0 = "no_criteria\<lparr>keywords' := Some ''sony''\<rparr>"
      and ?p2.0 = "no_criteria\<lparr>keywords' := Some ''sony'', category := Some ''Electronics'',
         page := Some (Finite 2)\<rparr>"
      and catalog = MOCK_PRODUCTS]
  by simp

text \<open>
  Claim C10. For every criteria the result of the search is an order-preserving
  subsequence of the catalog: it is the catalog restricted to a set of positions, so two
  products of the result stand in the order of their storage, and a product stored once
  appears at most once.
\<close>

theorem searchProducts_subseq:
  "subseq (fst (searchProducts toLowerCase params catalog)) catalog \<and>
   (\<exists>N. fst (searchProducts toLowerCase params catalog) = nths catalog N) \<and>
   (distinct catalog \<longrightarrow> distinct (fst (searchProducts toLowerCase params catalog)))"
proof -
  have s: "subseq (fst (searchProducts toLowerCase params catalog)) catalog"
    by (simp add: searchProducts_filter)
  moreover from s have "\<exists>N. fst (searchProducts toLowerCase params catalog) = nths catalog N"
    by (simp add: subseq_conv_nths)
  moreover have "distinct catalog \<longrightarrow> distinct (fst (searchProducts toLowerCase params catalog))"
    by (simp add: searchProducts_filter)
  ultimately show ?thesis
    by blast
qed

theorem searchProducts_subseq_witness:
  "distinct MOCK_PRODUCTS \<and>
   subseq
     (fst (searchProducts toLowerCase_ascii (no_criteria\<lparr>maxPrice := Some (Finite 200)\<rparr>)
        MOCK_PRODUCTS))
     MOCK_PRODUCTS \<and>
   distinct
     (fst (searchProducts toLowerCase_ascii (no_criteria\<lparr>maxPrice := Some (Finite 200)\<rparr>)
        MOCK_PRODUCTS))"
  using searchProducts_subseq
    [where toLowerCase = toLowerCase_ascii
      and params = "no_criteria\<lparr>maxPrice := Some (Finite 200)\<rparr>"
      and catalog = MOCK_PRODUCTS]
    MOCK_PRODUCTS_distinct
  by simp

subsection \<open>Lookup and featured products\<close>

text \<open>
  Claim C4. In a catalog whose identifiers are unique, the lookup of the identifier of a
  stored product returns that product. The lookup compares identifiers by exact equality: a
  product it returns is stored and carries the identifier asked for. For an identifier that
  no stored product carries the lookup returns the not-found value \<open>None\<close>, an ordinary
  result.
\<close>

theorem getProductByASIN_lookup:
  "(distinct (map asin catalog) \<longrightarrow>
      (\<forall>p \<in> set catalog. fst (getProductByASIN (asin p) catalog) = Some p)) \<and>
   (\<forall>x q. fst (getProductByASIN x catalog) = Some q \<longrightarrow> q \<in> set catalog \<and> asin q = x) \<and>
   (\<forall>x. x \<notin> asin ` set catalog \<longrightarrow> fst (getProductByASIN x catalog) = None)"
proof (intro conjI impI ballI allI)
  fix p
  assume "distinct (map asin catalog)" and "p \<in> set catalog"
  then show "fst (getProductByASIN (asin p) catalog) = Some p"
    by (simp add: getProductByASIN_def find_asin_distinct)
next
  fix x q
  assume "fst (getProductByASIN x catalog) = Some q"
  then have found: "find (\<lambda>q. asin q = x) catalog = Some q"
    by (simp add: getProductByASIN_def)
  from find_asin_found [OF found] show "q \<in> set catalog" and "asin q = x"
    by blast+
next
  fix x
  assume "x \<notin> asin ` set catalog"
  then show "fst (getProductByASIN x catalog) = None"
    by (simp add: getProductByASIN_def find_asin_absent)
qed

text \<open>
  In the stored catalog every product is found under its identifier, the AirPods among
  them; the same identifier in lower case, and an identifier that is not stored, are not
  found.
\<close>

theorem getProductByASIN_lookup_witness:
  "distinct (map asin MOCK_PRODUCTS) \<and>
   product_B08N5WRWNW \<in> set MOCK_PRODUCTS \<and>
   fst (getProductByASIN (asin product_B08N5WRWNW) MOCK_PRODUCTS) = Some product_B08N5WRWNW \<and>
   ''b08n5wrwnw'' \<notin> asin ` set MOCK_PRODUCTS \<and>
   fst (getProductByASIN ''b08n5wrwnw'' MOCK_PRODUCTS) = None \<and>
   ''nonexistent'' \<notin> asin ` set MOCK_PRODUCTS \<and>
   fst (getProductByASIN ''nonexistent'' MOCK_PRODUCTS) = None \<and>
   list_all (\<lambda>p. fst (getProductByASIN (asin p) MOCK_PRODUCTS) = Some p) MOCK_PRODUCTS"
proof -
  note lookup = getProductByASIN_lookup [of MOCK_PRODUCTS]
  have a: "''b08n5wrwnw'' \<notin> asin ` set MOCK_PRODUCTS"
    by code_simp
  have b: "''nonexistent'' \<notin> asin ` set MOCK_PRODUCTS"
    by code_simp
  have f: "fst (getProductByASIN (asin product_B08N5WRWNW) MOCK_PRODUCTS) =
      Some product_B08N5WRWNW"
    using lookup [THEN conjunct1, rule_format,
        OF MOCK_PRODUCTS_distinct_asin product_B08N5WRWNW_stored] .
  have na: "fst (getProductByASIN ''b08n5wrwnw'' MOCK_PRODUCTS) = None"
    using lookup [THEN conjunct2, THEN conjunct2, rule_format, OF a] .
  have nb: "fst (getProductByASIN ''nonexistent'' MOCK_PRODUCTS) = None"
    using lookup [THEN conjunct2, THEN conjunct2, rule_format, OF b] .
  have every: "list_all (\<lambda>p. fst (getProductByASIN (asin p) MOCK_PRODUCTS) = Some p)
      MOCK_PRODUCTS"
    using lookup [THEN conjunct1, rule_format, OF MOCK_PRODUCTS_distinct_asin]
    by (simp add: list_all_iff)
  show ?thesis
    by (intro conjI MOCK_PRODUCTS_distinct_asin product_B08N5WRWNW_stored f a na b nb every)
qed

text \<open>
  Claim C5, as amended. The operation takes no count: it returns exactly
  \<open>min 4 catalogSize\<close> products, the first four of the catalog in storage order. Its result
  is a prefix of the result of the search with empty criteria, and a catalog of fewer than
  four products is returned whole, without padding.
\<close>

theorem getFeaturedProducts_first_four:
  "length (fst (getFeaturedProducts catalog)) = min 4 (length catalog) \<and>
   fst (getFeaturedProducts catalog) = take 4 catalog \<and>
   prefix (fst (getFeaturedProducts catalog))
     (fst (searchProducts toLowerCase no_criteria catalog)) \<and>
   (length catalog \<le> 4 \<longrightarrow> fst (getFeaturedProducts catalog) = catalog)"
  by (simp add: getFeaturedProducts_def searchProducts_def no_criteria_def take_is_prefix)

theorem getFeaturedProducts_first_four_witness:
  "length [product_B08N5WRWNW, product_B0CX23V2ZK] \<le> 4 \<and>
   fst (getFeaturedProducts [product_B08N5WRWNW, product_B0CX23V2ZK]) =
     [product_B08N5WRWNW, product_B0CX23V2ZK] \<and>
   length (fst (getFeaturedProducts MOCK_PRODUCTS)) = min 4 (length MOCK_PRODUCTS)"
  using getFeaturedProducts_first_four [of "[product_B08N5WRWNW, product_B0CX23V2ZK]"]
    getFeaturedProducts_first_four [of MOCK_PRODUCTS]
  by simp

text \<open>
  The claim as it was stated gives the operation a count \<open>n\<close> and promises \<open>min n catalogSize\<close>
  products. For the count 2 and the stored catalog of six products, the operation returns
  four products, not the first two.
\<close>

theorem getFeaturedProducts_count_counterexample:
  "length (fst (getFeaturedProducts MOCK_PRODUCTS)) \<noteq> min 2 (length MOCK_PRODUCTS) \<and>
   fst (getFeaturedProducts MOCK_PRODUCTS) \<noteq> take 2 MOCK_PRODUCTS"
  by code_simp

subsection \<open>No operation writes\<close>

text \<open>
  Claim C8. Each of the three operations leaves the catalog, and with it every stored
  product, as it found it; running an operation a second time with the same input on the
  catalog the first run left gives the same output.
\<close>

theorem operations_read_only:
  "snd (searchProducts toLowerCase params catalog) = catalog \<and>
   snd (getProductByASIN a catalog) = catalog \<and>
   snd (getFeaturedProducts catalog) = catalog \<and>
   fst (searchProducts toLowerCase params
       (snd (searchProducts toLowerCase params catalog))) =
     fst (searchProducts toLowerCase params catalog) \<and>
   fst (getProductByASIN a (snd (getProductByASIN a catalog))) =
     fst (getProductByASIN a catalog) \<and>
   fst (getFeaturedProducts (snd (getFeaturedProducts catalog))) =
     fst (getFeaturedProducts catalog)"
  by (simp add: searchProducts_def getProductByASIN_def getFeaturedProducts_def Let_def)

theorem operations_read_only_witness:
  "snd (searchProducts toLowerCase_ascii (no_criteria\<lparr>keywords' := Some ''sony''\<rparr>) MOCK_PRODUCTS) =
     MOCK_PRODUCTS \<and>
   snd (getProductByASIN ''B08N5WRWNW'' MOCK_PRODUCTS) = MOCK_PRODUCTS \<and>
   snd (getFeaturedProducts MOCK_PRODUCTS) = MOCK_PRODUCTS"
  using operations_read_only
    [where toLowerCase = toLowerCase_ascii
      and params = "no_criteria\<lparr>keywords' := Some ''sony''\<rparr>"
      and catalog = MOCK_PRODUCTS and a = "''B08N5WRWNW''"]
  by simp

end
